theory Spec2Isabelle
  imports Complex_Main "HOL-Library.Char_ord" "HOL-Library.List_Lexorder"
begin

section \<open>Data model\<close>

text \<open>
  Row identifiers are uuids; only their equality matters, so they are natural numbers here.
  Timestamps are natural numbers (ticks).  The TypeScript interface \<open>ProductVariant\<close> and
  the table \<open>public.product_variants\<close> have the same columns and share one record.
\<close>

type_synonym uuid = nat
type_synonym timestamp = nat

datatype variant_type = Weight | Pcs | Price | Flavor | Size

record ProductVariant =
  v_id :: uuid
  product_id :: uuid
  sku :: string
  variant_type :: variant_type
  variant_value :: string
  price :: int
  quantity :: int
  last_updated :: timestamp
  updated_by :: "uuid option"

section \<open>JavaScript strings and numbers\<close>

text \<open>
  Strings are ASCII character lists.  JavaScript numbers are idealised as exact rationals:
  every number below is a decimal literal of the input, possibly multiplied or divided by a
  decimal constant, and no rounding of IEEE doubles is modelled.  \<open>None\<close> stands for
  \<open>null\<close> (and for \<open>NaN\<close> as the result of \<open>parseFloat\<close>).
\<close>

definition isDigit :: "char \<Rightarrow> bool" where
  "isDigit c = (c \<in> set ''0123456789'')"

definition isDigitOrDot :: "char \<Rightarrow> bool" where
  "isDigitOrDot c = (isDigit c \<or> c = CHR ''.'')"

definition toLowerChar :: "char \<Rightarrow> char" where
  "toLowerChar c =
     (let n = (of_char c :: nat) in if 65 \<le> n \<and> n \<le> 90 then char_of (n + 32) else c)"

definition toLowerCase :: "string \<Rightarrow> string" where
  "toLowerCase s = map toLowerChar s"

text \<open>\<open>s.includes(sub)\<close>: \<open>sub\<close> occurs in \<open>s\<close> as a contiguous substring.\<close>

primrec includes_str :: "string \<Rightarrow> string \<Rightarrow> bool" where
  "includes_str [] sub = (sub = [])"
| "includes_str (c # cs) sub = (take (length sub) (c # cs) = sub \<or> includes_str cs sub)"

definition digitsValue :: "string \<Rightarrow> nat" where
  "digitsValue ds = foldl (\<lambda>acc c. 10 * acc + (of_char c - 48)) 0 ds"

text \<open>
  \<open>Number.parseFloat\<close> on the strings the regular expressions below can produce (digits
  and dots): the longest prefix that is a decimal literal, i.e. digits, optionally followed by
  a dot and further digits, or a dot followed by at least one digit; \<open>NaN\<close> if there is
  no such prefix.
\<close>

definition parseFloat :: "string \<Rightarrow> rat option" where
  "parseFloat s =
     (let ip = takeWhile isDigit s;
          rest = dropWhile isDigit s;
          fp = (case rest of [] \<Rightarrow> [] | c # r \<Rightarrow> if c = CHR ''.'' then takeWhile isDigit r else [])
      in if ip = [] \<and> fp = [] then None
         else Some (of_nat (digitsValue ip) + of_nat (digitsValue fp) / 10 ^ length fp))"

text \<open>
  The first match of \<open>/(\d+(?:\.\d+)?)/\<close>: the leftmost run of digits, extended by a dot and
  a further run of digits when both are present.
\<close>

definition matchNumber :: "string \<Rightarrow> string option" where
  "matchNumber s =
     (case dropWhile (\<lambda>c. \<not> isDigit c) s of
        [] \<Rightarrow> None
      | d # r \<Rightarrow>
          (let ip = takeWhile isDigit (d # r);
               rest = dropWhile isDigit (d # r)
           in case rest of
                [] \<Rightarrow> Some ip
              | c # r' \<Rightarrow>
                  if c = CHR ''.'' \<and> takeWhile isDigit r' \<noteq> []
                  then Some (ip @ [c] @ takeWhile isDigit r')
                  else Some ip))"

text \<open>The first match of \<open>/[\d\.]+/\<close>: the leftmost maximal run of digits and dots.\<close>

definition matchDigitsDots :: "string \<Rightarrow> string option" where
  "matchDigitsDots s =
     (case dropWhile (\<lambda>c. \<not> isDigitOrDot c) s of
        [] \<Rightarrow> None
      | d # r \<Rightarrow> Some (takeWhile isDigitOrDot (d # r)))"

text \<open>
  Capture group 1 of \<open>/[^\d]*(\d+(?:\.\d+)?)/\<close>.  The greedy prefix \<open>[^\d]*\<close> can only
  be followed by a digit when it has consumed every character before the first digit, so the
  match starts at index 0 and its group is the first number of the string; there is no match
  when the string has no digit.
\<close>

definition matchSkipNumber :: "string \<Rightarrow> string option" where
  "matchSkipNumber s =
     (let skipped = takeWhile (\<lambda>c. \<not> isDigit c) s
      in matchNumber (drop (length skipped) s))"

text \<open>
  \<open>a.localeCompare(b, undefined, { sensitivity: 'base' })\<close> on ASCII strings: the sign of
  the lexicographic comparison of the two strings with letter case ignored.  Digits sort
  before letters, as in the collation of the runtime; the other characters are ordered by
  their codes.
\<close>

definition localeCompare :: "string \<Rightarrow> string \<Rightarrow> rat" where
  "localeCompare a b =
     (let x = toLowerCase a; y = toLowerCase b
      in if x < y then - 1 else if x = y then 0 else 1)"

section \<open>Variant ordering and display resolver\<close>

subsection \<open>Parsers\<close>

text \<open>\<open>parseNumericValue\<close> of \<open>pages/Index.tsx\<close>.\<close>

definition parseNumericValue_Index :: "string \<Rightarrow> rat option" where
  "parseNumericValue_Index v =
     (case matchDigitsDots v of None \<Rightarrow> None | Some m \<Rightarrow> parseFloat m)"

text \<open>\<open>parseNumericValue\<close> of \<open>components/ProductDetailDialog.tsx\<close>.\<close>

definition parseNumericValue_Detail :: "string \<Rightarrow> rat option" where
  "parseNumericValue_Detail v =
     (case matchDigitsDots v of None \<Rightarrow> None | Some m \<Rightarrow> parseFloat m)"

text \<open>\<open>parseNumericValue\<close> of \<open>pages/AdminDashboard.tsx\<close>.\<close>

definition parseNumericValue_Admin :: "string \<Rightarrow> rat option" where
  "parseNumericValue_Admin v =
     (case matchSkipNumber v of None \<Rightarrow> None | Some m \<Rightarrow> parseFloat m)"

text \<open>\<open>parseWeightInGrams\<close>, the same text in all three files.\<close>

definition parseWeightInGrams :: "string \<Rightarrow> rat option" where
  "parseWeightInGrams v =
     (let lowerValue = toLowerCase v in
      case matchNumber lowerValue of
        None \<Rightarrow> None
      | Some m \<Rightarrow>
          (case parseFloat m of
             None \<Rightarrow> None
           | Some num \<Rightarrow>
               if includes_str lowerValue ''kg'' then Some (num * 1000)
               else if includes_str lowerValue ''g'' \<and> \<not> includes_str lowerValue ''kg'' then Some num
               else if includes_str lowerValue ''mg'' then Some (num / 1000)
               else if includes_str lowerValue ''lb'' \<or> includes_str lowerValue ''pound''
                 then Some (num * (453592 / 1000))
               else if includes_str lowerValue ''oz'' \<or> includes_str lowerValue ''ounce''
                 then Some (num * (283495 / 10000))
               else Some num))"

subsection \<open>Comparator and sort\<close>

text \<open>
  The comparator passed to \<open>sort\<close>, the same text in all three files up to the
  \<open>parseNumericValue\<close> it calls, which is the parameter \<open>pnv\<close>.  \<open>parsedValues\<close> is the
  pair \<open>(aValue, bValue)\<close> the comparator computes first.
\<close>

definition isWeightVariant :: "ProductVariant \<Rightarrow> ProductVariant \<Rightarrow> bool" where
  "isWeightVariant a b = (variant_type a = Weight \<or> variant_type b = Weight)"

definition parsedValues ::
  "(string \<Rightarrow> rat option) \<Rightarrow> ProductVariant \<Rightarrow> ProductVariant \<Rightarrow> rat option \<times> rat option" where
  "parsedValues pnv a b =
     (if isWeightVariant a b
      then (parseWeightInGrams (variant_value a), parseWeightInGrams (variant_value b))
      else (pnv (variant_value a), pnv (variant_value b)))"

definition compareVariants ::
  "(string \<Rightarrow> rat option) \<Rightarrow> ProductVariant \<Rightarrow> ProductVariant \<Rightarrow> rat" where
  "compareVariants pnv a b =
     (case parsedValues pnv a b of
        (Some x, Some y) \<Rightarrow>
          if x \<noteq> y then x - y else localeCompare (variant_value a) (variant_value b)
      | (Some x, None) \<Rightarrow> - 1
      | (None, Some y) \<Rightarrow> 1
      | (None, None) \<Rightarrow>
          if price a \<noteq> price b then of_int (price a - price b)
          else localeCompare (variant_value a) (variant_value b))"

text \<open>
  \<open>[...variants].sort(cmp)\<close> is a stable sort of a copy.  It is modelled as a stable insertion
  sort: an element is placed before the first element it does not compare greater than.  For
  a comparator that is a total preorder every stable sort returns the same list.
\<close>

primrec insertBy :: "('a \<Rightarrow> 'a \<Rightarrow> rat) \<Rightarrow> 'a \<Rightarrow> 'a list \<Rightarrow> 'a list" where
  "insertBy cmp x [] = [x]"
| "insertBy cmp x (y # ys) = (if cmp x y \<le> 0 then x # y # ys else y # insertBy cmp x ys)"

definition sortBy :: "('a \<Rightarrow> 'a \<Rightarrow> rat) \<Rightarrow> 'a list \<Rightarrow> 'a list" where
  "sortBy cmp xs = foldr (insertBy cmp) xs []"

definition sortVariants_Index :: "ProductVariant list \<Rightarrow> ProductVariant list" where
  "sortVariants_Index variants = sortBy (compareVariants parseNumericValue_Index) variants"

definition sortVariants_Admin :: "ProductVariant list \<Rightarrow> ProductVariant list" where
  "sortVariants_Admin variants = sortBy (compareVariants parseNumericValue_Admin) variants"

definition sortVariants_Detail :: "ProductVariant list \<Rightarrow> ProductVariant list" where
  "sortVariants_Detail variants = sortBy (compareVariants parseNumericValue_Detail) variants"

subsection \<open>Active variant\<close>

text \<open>
  \<open>(currentId && sorted.find(v => v.id === currentId)) || sorted[0] || null\<close>; the prior
  selection is \<open>None\<close> when the view holds no id for the product.
\<close>

definition selectVariant :: "uuid option \<Rightarrow> ProductVariant list \<Rightarrow> ProductVariant option" where
  "selectVariant currentId sortedVariants =
     (case (case currentId of None \<Rightarrow> None
            | Some i \<Rightarrow> find (\<lambda>v. v_id v = i) sortedVariants) of
        Some v \<Rightarrow> Some v
      | None \<Rightarrow> (case sortedVariants of [] \<Rightarrow> None | v # _ \<Rightarrow> Some v))"

text \<open>\<open>getVariantsForItem\<close> of \<open>pages/Index.tsx\<close>.\<close>

definition getVariantsForItem_Index ::
  "uuid option \<Rightarrow> ProductVariant list \<Rightarrow> ProductVariant list \<times> ProductVariant option" where
  "getVariantsForItem_Index currentId variants =
     (let sortedVariants = sortVariants_Index variants
      in (sortedVariants, selectVariant currentId sortedVariants))"

text \<open>
  \<open>getVariantsForItem\<close> of \<open>pages/AdminDashboard.tsx\<close>, which first tests the item's
  \<open>has_variants\<close> flag.
\<close>

definition getVariantsForItem_Admin ::
  "bool \<Rightarrow> uuid option \<Rightarrow> ProductVariant list \<Rightarrow> ProductVariant list \<times> ProductVariant option" where
  "getVariantsForItem_Admin has_variants currentId variants =
     (if \<not> has_variants then ([], None)
      else let sortedVariants = sortVariants_Admin variants
           in (sortedVariants, selectVariant currentId sortedVariants))"

text \<open>The sorted list and \<open>activeVariant\<close> of \<open>components/ProductDetailDialog.tsx\<close>.\<close>

definition activeVariant_Detail ::
  "uuid option \<Rightarrow> ProductVariant list \<Rightarrow> ProductVariant list \<times> ProductVariant option" where
  "activeVariant_Detail selectedVariantId variants =
     (let sortedVariants = sortVariants_Detail variants;
          defaultVariant = (case sortedVariants of [] \<Rightarrow> None | v # _ \<Rightarrow> Some v)
      in (sortedVariants,
          case selectedVariantId of
            None \<Rightarrow> defaultVariant
          | Some i \<Rightarrow>
              (case find (\<lambda>v. v_id v = i) sortedVariants of
                 Some v \<Rightarrow> Some v
               | None \<Rightarrow> defaultVariant)))"

section \<open>Catalog store\<close>

subsection \<open>Tables\<close>

record Category =
  c_id :: uuid
  c_name :: string
  c_description :: "string option"

record Product =
  p_id :: uuid
  p_name :: string
  p_description :: "string option"
  p_category :: "string option"
  p_is_visible :: bool
  p_image_url :: "string option"
  p_last_updated :: timestamp
  p_updated_by :: "uuid option"

record StoreStatus =
  s_id :: uuid
  is_open :: bool
  updated_at :: "timestamp option"
  s_updated_by :: "uuid option"

text \<open>
  The database: one row list per table, in storage order; \<open>admin_users\<close> holds the
  \<open>user_id\<close> column; \<open>sku_sequence\<close> is the last value \<open>nextval\<close> returned (0 before the
  first call, as the sequence starts at 1 and increments by 1).
\<close>

record db =
  category :: "Category list"
  product :: "Product list"
  product_variants :: "ProductVariant list"
  admin_users :: "uuid list"
  store_status :: "StoreStatus list"
  sku_sequence :: nat

text \<open>
  A statement either commits or is aborted with an error; an aborted statement leaves every
  table as it was.  Only the sequence keeps its advance, as \<open>nextval\<close> is never rolled
  back.  The result is the outcome and the database after the statement.
\<close>

datatype error =
    NotAuthorized
  | InvariantViolation
  | UniquenessViolation
  | ReferentialError

type_synonym outcome = "(error + unit) \<times> db"

subsection \<open>Row-level security\<close>

text \<open>\<open>public.is_admin()\<close>; the actor is \<open>auth.uid()\<close>, \<open>None\<close> for an anonymous session.\<close>

definition is_admin :: "db \<Rightarrow> uuid option \<Rightarrow> bool" where
  "is_admin d actor = (case actor of None \<Rightarrow> False | Some u \<Rightarrow> u \<in> set (admin_users d))"

datatype table = T_category | T_product | T_product_variants | T_admin_users | T_store_status

datatype command = Select | Insert | Update | Delete

text \<open>
  The policies of a table are permissive and combined by disjunction.  Every table has a
  policy \<open>for all using (is_admin()) with check (is_admin())\<close>; every table but
  \<open>admin_users\<close> has a policy \<open>for select using (true)\<close>.  A \<open>using\<close> expression filters
  the existing rows a command can see: an update or delete by an actor for whom it is false
  finds no row and raises nothing.  A \<open>with check\<close> expression is tested on each new row of
  an insert or update, and raises an error when false.
\<close>

definition policy_using :: "db \<Rightarrow> uuid option \<Rightarrow> table \<Rightarrow> command \<Rightarrow> bool" where
  "policy_using d actor t c = (is_admin d actor \<or> (c = Select \<and> t \<noteq> T_admin_users))"

definition policy_with_check :: "db \<Rightarrow> uuid option \<Rightarrow> table \<Rightarrow> command \<Rightarrow> bool" where
  "policy_with_check d actor t c = is_admin d actor"

subsection \<open>SKU generation\<close>

text \<open>The decimal text of a non-negative \<open>bigint\<close> (\<open>next_val::text\<close>).\<close>

definition digit_char :: "nat \<Rightarrow> char" where
  "digit_char k = ''0123456789'' ! k"

fun bigint_text :: "nat \<Rightarrow> string" where
  "bigint_text n =
     (if n < 10 then [digit_char n]
      else bigint_text (n div 10) @ [digit_char (n mod 10)])"

declare bigint_text.simps [simp del]

text \<open>
  PostgreSQL's \<open>lpad(string, length, fill)\<close> with a one-character fill: the string is
  extended on the left to the given length; a string that is already longer is truncated
  to that length, keeping its first characters.
\<close>

definition lpad :: "string \<Rightarrow> nat \<Rightarrow> char \<Rightarrow> string" where
  "lpad s n fill =
     (if n \<le> length s then take n s else replicate (n - length s) fill @ s)"

definition generate_sku :: "db \<Rightarrow> string \<times> db" where
  "generate_sku d =
     (let next_val = sku_sequence d + 1
      in (''SF-'' @ lpad (bigint_text next_val) 4 (CHR ''0''), d\<lparr>sku_sequence := next_val\<rparr>))"

subsection \<open>Statements on \<open>product_variants\<close>\<close>

text \<open>
  The constraints of the table, tested on a new row against the rows \<open>others\<close>: primary key,
  unique \<open>sku\<close>, \<open>unique_variant_per_product\<close>, and the foreign key to \<open>product\<close>.  The
  check constraint on \<open>variant_type\<close> is the type of the column.
\<close>

definition variant_constraints ::
  "ProductVariant list \<Rightarrow> Product list \<Rightarrow> ProductVariant \<Rightarrow> error option" where
  "variant_constraints others products row =
     (if v_id row \<in> set (map v_id others) then Some UniquenessViolation
      else if sku row \<in> set (map sku others) then Some UniquenessViolation
      else if list_ex (\<lambda>w. product_id w = product_id row
                          \<and> variant_type w = variant_type row
                          \<and> variant_value w = variant_value row) others
        then Some UniquenessViolation
      else if product_id row \<notin> set (map p_id products) then Some ReferentialError
      else None)"

text \<open>
  \<open>insert into product_variants\<close> with a caller-supplied \<open>sku\<close>; \<open>id\<close> and
  \<open>last_updated\<close> take their defaults \<open>gen_random_uuid()\<close> (the argument \<open>vid\<close>) and
  \<open>now()\<close>.
\<close>

definition insert_variant ::
  "uuid option \<Rightarrow> timestamp \<Rightarrow> uuid \<Rightarrow> ProductVariant \<Rightarrow> db \<Rightarrow> outcome" where
  "insert_variant actor now vid payload d =
     (let row = payload\<lparr>v_id := vid, last_updated := now\<rparr>
      in if \<not> policy_with_check d actor T_product_variants Insert then (Inl NotAuthorized, d)
         else case variant_constraints (product_variants d) (product d) row of
                Some e \<Rightarrow> (Inl e, d)
              | None \<Rightarrow> (Inr (), d\<lparr>product_variants := product_variants d @ [row]\<rparr>))"

text \<open>
  The columns an \<open>update\<close> of a variant sets; \<open>None\<close> leaves a column as it is.  The
  application sets \<open>variant_type\<close>, \<open>variant_value\<close>, \<open>price\<close>, \<open>quantity\<close> and
  \<open>updated_by\<close>, or \<open>quantity\<close> and \<open>updated_by\<close>; it never sets \<open>product_id\<close> or
  \<open>sku\<close>.
\<close>

record VariantPatch =
  vp_variant_type :: "variant_type option"
  vp_variant_value :: "string option"
  vp_price :: "int option"
  vp_quantity :: "int option"
  vp_updated_by :: "uuid option option"

definition apply_variant_patch :: "VariantPatch \<Rightarrow> ProductVariant \<Rightarrow> ProductVariant" where
  "apply_variant_patch patch old =
     old\<lparr>variant_type := (case vp_variant_type patch of None \<Rightarrow> variant_type old | Some x \<Rightarrow> x),
         variant_value := (case vp_variant_value patch of None \<Rightarrow> variant_value old | Some x \<Rightarrow> x),
         price := (case vp_price patch of None \<Rightarrow> price old | Some x \<Rightarrow> x),
         quantity := (case vp_quantity patch of None \<Rightarrow> quantity old | Some x \<Rightarrow> x),
         updated_by := (case vp_updated_by patch of None \<Rightarrow> updated_by old | Some x \<Rightarrow> x)\<rparr>"

text \<open>The trigger function \<open>update_last_updated\<close>, before update on each variant row.\<close>

definition update_last_updated :: "timestamp \<Rightarrow> ProductVariant \<Rightarrow> ProductVariant" where
  "update_last_updated now new = new\<lparr>last_updated := now\<rparr>"

definition variant_new_row :: "timestamp \<Rightarrow> VariantPatch \<Rightarrow> ProductVariant \<Rightarrow> ProductVariant" where
  "variant_new_row now patch old = update_last_updated now (apply_variant_patch patch old)"

text \<open>\<open>update product_variants set ... where id = vid\<close>.\<close>

definition update_variant ::
  "uuid option \<Rightarrow> timestamp \<Rightarrow> uuid \<Rightarrow> VariantPatch \<Rightarrow> db \<Rightarrow> outcome" where
  "update_variant actor now vid patch d =
     (if \<not> policy_using d actor T_product_variants Update then (Inr (), d)
      else if \<not> policy_with_check d actor T_product_variants Update
              \<and> list_ex (\<lambda>v. v_id v = vid) (product_variants d)
        then (Inl NotAuthorized, d)
      else if list_ex (\<lambda>old. v_id old = vid \<and>
                 list_ex (\<lambda>w. v_id w \<noteq> vid
                            \<and> product_id w = product_id old
                            \<and> variant_type w = variant_type (variant_new_row now patch old)
                            \<and> variant_value w = variant_value (variant_new_row now patch old))
                   (product_variants d))
              (product_variants d)
        then (Inl UniquenessViolation, d)
      else (Inr (), d\<lparr>product_variants :=
                        map (\<lambda>v. if v_id v = vid then variant_new_row now patch v else v)
                          (product_variants d)\<rparr>))"

text \<open>
  The trigger function \<open>prevent_last_variant_delete\<close>, before delete on each variant row:
  it counts the rows of the table, as the statement has left them so far, that belong to the
  product of the row being deleted.
\<close>

definition prevent_last_variant_delete :: "ProductVariant list \<Rightarrow> ProductVariant \<Rightarrow> error + ProductVariant" where
  "prevent_last_variant_delete rows old =
     (if length (filter (\<lambda>v. product_id v = product_id old) rows) \<le> 1
      then Inl InvariantViolation
      else Inr old)"

text \<open>
  Deleting the rows \<open>targets\<close> from the table one after the other: the trigger fires before
  each row is removed and sees the rows removed before it as gone.  The first exception
  aborts the statement.
\<close>

fun delete_variant_rows :: "ProductVariant list \<Rightarrow> ProductVariant list \<Rightarrow> error + ProductVariant list" where
  "delete_variant_rows [] rows = Inr rows"
| "delete_variant_rows (old # targets) rows =
     (case prevent_last_variant_delete rows old of
        Inl e \<Rightarrow> Inl e
      | Inr _ \<Rightarrow> delete_variant_rows targets (remove1 old rows))"

text \<open>\<open>delete from product_variants where id = vid\<close>.\<close>

definition delete_variant :: "uuid option \<Rightarrow> uuid \<Rightarrow> db \<Rightarrow> outcome" where
  "delete_variant actor vid d =
     (if \<not> policy_using d actor T_product_variants Delete then (Inr (), d)
      else case delete_variant_rows (filter (\<lambda>v. v_id v = vid) (product_variants d))
                  (product_variants d) of
             Inl e \<Rightarrow> (Inl e, d)
           | Inr rows \<Rightarrow> (Inr (), d\<lparr>product_variants := rows\<rparr>))"

text \<open>\<open>select * from product_variants where product_id = pid\<close>.\<close>

definition select_variants :: "uuid option \<Rightarrow> uuid \<Rightarrow> db \<Rightarrow> ProductVariant list" where
  "select_variants actor pid d =
     (if policy_using d actor T_product_variants Select
      then filter (\<lambda>v. product_id v = pid) (product_variants d)
      else [])"

subsection \<open>Statements on \<open>product\<close>\<close>

text \<open>The trigger function \<open>nullify_empty_category_name\<close>, before insert or update.\<close>

definition nullify_empty_category_name :: "Product \<Rightarrow> Product" where
  "nullify_empty_category_name new =
     (if p_category new = Some [] then new\<lparr>p_category := None\<rparr> else new)"

text \<open>The trigger function \<open>update_product_last_updated\<close>, before update.\<close>

definition update_product_last_updated :: "timestamp \<Rightarrow> Product \<Rightarrow> Product" where
  "update_product_last_updated now new = new\<lparr>p_last_updated := now\<rparr>"

text \<open>The foreign key \<open>category text references public.category(name)\<close>.\<close>

definition category_fk_ok :: "Category list \<Rightarrow> Product \<Rightarrow> bool" where
  "category_fk_ok cats row =
     (case p_category row of None \<Rightarrow> True | Some n \<Rightarrow> n \<in> set (map c_name cats))"

text \<open>
  The trigger function \<open>create_default_variant\<close>, after insert on each product row.  It is
  \<open>security definer\<close>, so its insert is not filtered by the policies of the caller; the
  new variant's \<open>id\<close> is the argument \<open>vid\<close>.
\<close>

definition create_default_variant :: "timestamp \<Rightarrow> uuid \<Rightarrow> Product \<Rightarrow> db \<Rightarrow> outcome" where
  "create_default_variant now vid new d =
     (case generate_sku d of
        (s, d1) \<Rightarrow>
          (let row = \<lparr>v_id = vid, product_id = p_id new, sku = s, variant_type = Pcs,
                      variant_value = ''default'', price = 0, quantity = 0,
                      last_updated = now, updated_by = p_updated_by new\<rparr>
           in case variant_constraints (product_variants d1) (product d1) row of
                Some e \<Rightarrow> (Inl e, d1)
              | None \<Rightarrow> (Inr (), d1\<lparr>product_variants := product_variants d1 @ [row]\<rparr>)))"

text \<open>
  \<open>insert into product\<close>: \<open>id\<close> and \<open>last_updated\<close> take their defaults (the arguments
  \<open>pid\<close> and \<open>now\<close>).  An exception in the after-insert trigger aborts the insert of the
  product row too.
\<close>

definition insert_product ::
  "uuid option \<Rightarrow> timestamp \<Rightarrow> uuid \<Rightarrow> uuid \<Rightarrow> Product \<Rightarrow> db \<Rightarrow> outcome" where
  "insert_product actor now pid vid payload d =
     (let new = nullify_empty_category_name (payload\<lparr>p_id := pid, p_last_updated := now\<rparr>)
      in if \<not> policy_with_check d actor T_product Insert then (Inl NotAuthorized, d)
         else if pid \<in> set (map p_id (product d)) then (Inl UniquenessViolation, d)
         else if \<not> category_fk_ok (category d) new then (Inl ReferentialError, d)
         else case create_default_variant now vid new (d\<lparr>product := product d @ [new]\<rparr>) of
                (Inl e, d2) \<Rightarrow> (Inl e, d\<lparr>sku_sequence := sku_sequence d2\<rparr>)
              | (Inr u, d2) \<Rightarrow> (Inr (), d2))"

text \<open>The columns an \<open>update\<close> of a product sets; \<open>None\<close> leaves a column as it is.\<close>

record ProductPatch =
  pp_name :: "string option"
  pp_description :: "string option option"
  pp_category :: "string option option"
  pp_is_visible :: "bool option"
  pp_image_url :: "string option option"
  pp_updated_by :: "uuid option option"

definition apply_product_patch :: "ProductPatch \<Rightarrow> Product \<Rightarrow> Product" where
  "apply_product_patch patch old =
     old\<lparr>p_name := (case pp_name patch of None \<Rightarrow> p_name old | Some x \<Rightarrow> x),
         p_description := (case pp_description patch of None \<Rightarrow> p_description old | Some x \<Rightarrow> x),
         p_category := (case pp_category patch of None \<Rightarrow> p_category old | Some x \<Rightarrow> x),
         p_is_visible := (case pp_is_visible patch of None \<Rightarrow> p_is_visible old | Some x \<Rightarrow> x),
         p_image_url := (case pp_image_url patch of None \<Rightarrow> p_image_url old | Some x \<Rightarrow> x),
         p_updated_by := (case pp_updated_by patch of None \<Rightarrow> p_updated_by old | Some x \<Rightarrow> x)\<rparr>"

definition product_new_row :: "timestamp \<Rightarrow> ProductPatch \<Rightarrow> Product \<Rightarrow> Product" where
  "product_new_row now patch old =
     update_product_last_updated now (nullify_empty_category_name (apply_product_patch patch old))"

text \<open>
  \<open>update product set ... where id = pid\<close>.  The foreign key is tested on a row whose
  \<open>category\<close> has changed.
\<close>

definition update_product ::
  "uuid option \<Rightarrow> timestamp \<Rightarrow> uuid \<Rightarrow> ProductPatch \<Rightarrow> db \<Rightarrow> outcome" where
  "update_product actor now pid patch d =
     (if \<not> policy_using d actor T_product Update then (Inr (), d)
      else if \<not> policy_with_check d actor T_product Update
              \<and> list_ex (\<lambda>r. p_id r = pid) (product d)
        then (Inl NotAuthorized, d)
      else if list_ex (\<lambda>old. p_id old = pid
                          \<and> p_category (product_new_row now patch old) \<noteq> p_category old
                          \<and> \<not> category_fk_ok (category d) (product_new_row now patch old))
              (product d)
        then (Inl ReferentialError, d)
      else (Inr (), d\<lparr>product :=
                        map (\<lambda>r. if p_id r = pid then product_new_row now patch r else r)
                          (product d)\<rparr>))"

text \<open>
  \<open>delete from product where id = pid\<close>.  The foreign key of \<open>product_variants\<close> is
  \<open>on delete cascade\<close>: once the product row is gone its variants are deleted by a delete
  on \<open>product_variants\<close>, which fires that table's before-delete trigger for each of them.
  An exception there aborts the whole statement.
\<close>

definition delete_product :: "uuid option \<Rightarrow> uuid \<Rightarrow> db \<Rightarrow> outcome" where
  "delete_product actor pid d =
     (if \<not> policy_using d actor T_product Delete then (Inr (), d)
      else if \<not> list_ex (\<lambda>r. p_id r = pid) (product d) then (Inr (), d)
      else case delete_variant_rows (filter (\<lambda>v. product_id v = pid) (product_variants d))
                  (product_variants d) of
             Inl e \<Rightarrow> (Inl e, d)
           | Inr rows \<Rightarrow>
               (Inr (), d\<lparr>product := filter (\<lambda>r. p_id r \<noteq> pid) (product d),
                          product_variants := rows\<rparr>))"

subsection \<open>Statements on \<open>category\<close>\<close>

text \<open>\<open>insert into category\<close> (name, description); the \<open>id\<close> default is \<open>cid\<close>.\<close>

definition insert_category ::
  "uuid option \<Rightarrow> uuid \<Rightarrow> string \<Rightarrow> string option \<Rightarrow> db \<Rightarrow> outcome" where
  "insert_category actor cid name description d =
     (if \<not> policy_with_check d actor T_category Insert then (Inl NotAuthorized, d)
      else if cid \<in> set (map c_id (category d)) \<or> name \<in> set (map c_name (category d))
        then (Inl UniquenessViolation, d)
      else (Inr (), d\<lparr>category := category d @
                        [\<lparr>c_id = cid, c_name = name, c_description = description\<rparr>]\<rparr>))"

text \<open>\<open>update category set description = ... where id = cid\<close>.\<close>

definition update_category ::
  "uuid option \<Rightarrow> uuid \<Rightarrow> string option \<Rightarrow> db \<Rightarrow> outcome" where
  "update_category actor cid description d =
     (if \<not> policy_using d actor T_category Update then (Inr (), d)
      else if \<not> policy_with_check d actor T_category Update
              \<and> list_ex (\<lambda>c. c_id c = cid) (category d)
        then (Inl NotAuthorized, d)
      else (Inr (), d\<lparr>category :=
                        map (\<lambda>c. if c_id c = cid then c\<lparr>c_description := description\<rparr> else c)
                          (category d)\<rparr>))"

text \<open>
  \<open>delete from category where id = cid\<close>.  The foreign key of \<open>product.category\<close> is
  \<open>on delete set null\<close>: the products naming a deleted category are updated, which fires
  the before-update triggers of \<open>product\<close>.
\<close>

definition delete_category :: "uuid option \<Rightarrow> timestamp \<Rightarrow> uuid \<Rightarrow> db \<Rightarrow> outcome" where
  "delete_category actor now cid d =
     (if \<not> policy_using d actor T_category Delete then (Inr (), d)
      else let gone = map c_name (filter (\<lambda>c. c_id c = cid) (category d))
           in (Inr (), d\<lparr>category := filter (\<lambda>c. c_id c \<noteq> cid) (category d),
                         product :=
                           map (\<lambda>r. case p_category r of
                                      None \<Rightarrow> r
                                    | Some n \<Rightarrow>
                                        if n \<in> set gone
                                        then update_product_last_updated now
                                               (nullify_empty_category_name (r\<lparr>p_category := None\<rparr>))
                                        else r)
                             (product d)\<rparr>))"

subsection \<open>Statements on \<open>store_status\<close>\<close>

text \<open>
  \<open>insert into store_status\<close> (is_open, updated_by); \<open>updated_at\<close> takes its default
  \<open>now()\<close>.
\<close>

definition insert_store_status ::
  "uuid option \<Rightarrow> timestamp \<Rightarrow> uuid \<Rightarrow> bool \<Rightarrow> uuid option \<Rightarrow> db \<Rightarrow> outcome" where
  "insert_store_status actor now sid isOpen by d =
     (if \<not> policy_with_check d actor T_store_status Insert then (Inl NotAuthorized, d)
      else if sid \<in> set (map s_id (store_status d)) then (Inl UniquenessViolation, d)
      else (Inr (), d\<lparr>store_status := store_status d @
                        [\<lparr>s_id = sid, is_open = isOpen, updated_at = Some now,
                          s_updated_by = by\<rparr>]\<rparr>))"

text \<open>
  \<open>update store_status set is_open = ..., updated_by = ... where id = sid\<close>; the table has
  no trigger, so \<open>updated_at\<close> stays.
\<close>

definition update_store_status ::
  "uuid option \<Rightarrow> uuid \<Rightarrow> bool \<Rightarrow> uuid option \<Rightarrow> db \<Rightarrow> outcome" where
  "update_store_status actor sid isOpen by d =
     (if \<not> policy_using d actor T_store_status Update then (Inr (), d)
      else if \<not> policy_with_check d actor T_store_status Update
              \<and> list_ex (\<lambda>r. s_id r = sid) (store_status d)
        then (Inl NotAuthorized, d)
      else (Inr (), d\<lparr>store_status :=
                        map (\<lambda>r. if s_id r = sid then r\<lparr>is_open := isOpen, s_updated_by := by\<rparr>
                                  else r)
                          (store_status d)\<rparr>))"

text \<open>\<open>delete from store_status where id = sid\<close>.\<close>

definition delete_store_status :: "uuid option \<Rightarrow> uuid \<Rightarrow> db \<Rightarrow> outcome" where
  "delete_store_status actor sid d =
     (if \<not> policy_using d actor T_store_status Delete then (Inr (), d)
      else (Inr (), d\<lparr>store_status := filter (\<lambda>r. s_id r \<noteq> sid) (store_status d)\<rparr>))"

subsection \<open>Operations\<close>

text \<open>
  The mutating operations of the store, each one statement, and the remote procedure call
  of \<open>generate_sku\<close>.  Fresh uuids are arguments of the inserts.
\<close>

datatype operation =
    CreateProduct uuid uuid Product
  | UpdateProduct uuid ProductPatch
  | DeleteProduct uuid
  | CreateVariant uuid ProductVariant
  | UpdateVariant uuid VariantPatch
  | DeleteVariant uuid
  | CreateCategory uuid string "string option"
  | UpdateCategory uuid "string option"
  | DeleteCategory uuid
  | CreateStoreStatus uuid bool "uuid option"
  | UpdateStoreStatus uuid bool "uuid option"
  | DeleteStoreStatus uuid
  | GenerateSku

fun exec :: "uuid option \<Rightarrow> timestamp \<Rightarrow> operation \<Rightarrow> db \<Rightarrow> outcome" where
  "exec actor now (CreateProduct pid vid payload) d = insert_product actor now pid vid payload d"
| "exec actor now (UpdateProduct pid patch) d = update_product actor now pid patch d"
| "exec actor now (DeleteProduct pid) d = delete_product actor pid d"
| "exec actor now (CreateVariant vid payload) d = insert_variant actor now vid payload d"
| "exec actor now (UpdateVariant vid patch) d = update_variant actor now vid patch d"
| "exec actor now (DeleteVariant vid) d = delete_variant actor vid d"
| "exec actor now (CreateCategory cid name description) d =
     insert_category actor cid name description d"
| "exec actor now (UpdateCategory cid description) d = update_category actor cid description d"
| "exec actor now (DeleteCategory cid) d = delete_category actor now cid d"
| "exec actor now (CreateStoreStatus sid isOpen by) d =
     insert_store_status actor now sid isOpen by d"
| "exec actor now (UpdateStoreStatus sid isOpen by) d = update_store_status actor sid isOpen by d"
| "exec actor now (DeleteStoreStatus sid) d = delete_store_status actor sid d"
| "exec actor now GenerateSku d = (Inr (), snd (generate_sku d))"


text \<open>
  The states of the store: all tables empty but \<open>admin_users\<close>, then any sequence of
  operations by any actors.
\<close>

definition initial_db :: "uuid list \<Rightarrow> db" where
  "initial_db admins =
     \<lparr>category = [], product = [], product_variants = [], admin_users = admins,
      store_status = [], sku_sequence = 0\<rparr>"

inductive reachable :: "db \<Rightarrow> bool" where
  init: "reachable (initial_db admins)"
| step: "reachable d \<Longrightarrow> reachable (snd (exec actor now op d))"

definition variants_of :: "db \<Rightarrow> uuid \<Rightarrow> ProductVariant list" where
  "variants_of d pid = filter (\<lambda>v. product_id v = pid) (product_variants d)"


subsection \<open>Store status on the public page\<close>

text \<open>
  \<open>select is_open from store_status order by updated_at desc limit 1\<close>.  A descending
  order puts nulls first, so a null \<open>updated_at\<close> counts as greater than every timestamp; among
  rows with equal \<open>updated_at\<close> the first in storage order is kept.
\<close>

definition updated_at_le :: "timestamp option \<Rightarrow> timestamp option \<Rightarrow> bool" where
  "updated_at_le x y =
     (case y of None \<Rightarrow> True | Some t \<Rightarrow> (case x of None \<Rightarrow> False | Some u \<Rightarrow> u \<le> t))"

definition latest_status :: "StoreStatus list \<Rightarrow> StoreStatus list" where
  "latest_status rows =
     (case rows of
        [] \<Rightarrow> []
      | r # rs \<Rightarrow>
          [foldl (\<lambda>best x. if updated_at_le (updated_at x) (updated_at best) then best else x)
             r rs])"

text \<open>
  \<open>fetchStoreStatus\<close> of \<open>pages/Index.tsx\<close>: the value it passes to \<open>setStoreStatus\<close>.
  The query either fails (\<open>Inl\<close> the error message) or returns its rows.
\<close>

definition fetchStoreStatus :: "string + StoreStatus list \<Rightarrow> bool" where
  "fetchStoreStatus response =
     (case response of
        Inl err \<Rightarrow> True
      | Inr data \<Rightarrow> (case data of [] \<Rightarrow> True | r # _ \<Rightarrow> is_open r))"

text \<open>The query as the store answers it, for an actor who may read the table.\<close>

definition query_store_status :: "db \<Rightarrow> string + StoreStatus list" where
  "query_store_status d = Inr (latest_status (store_status d))"

section \<open>Example data\<close>

definition example_variant :: "uuid \<Rightarrow> variant_type \<Rightarrow> string \<Rightarrow> int \<Rightarrow> ProductVariant" where
  "example_variant i t v p =
     \<lparr>v_id = i, product_id = 1, sku = ''SKU'', variant_type = t, variant_value = v,
      price = p, quantity = 0, last_updated = 0, updated_by = None\<rparr>"

definition example_payload :: "string \<Rightarrow> Product" where
  "example_payload n =
     \<lparr>p_id = 0, p_name = n, p_description = None, p_category = None, p_is_visible = True,
      p_image_url = None, p_last_updated = 0, p_updated_by = Some 1\<rparr>"

text \<open>The store after its admin, user 1, has created one product at time 5.\<close>

definition example_db1 :: db where
  "example_db1 =
     \<lparr>category = [],
      product = [\<lparr>p_id = 10, p_name = ''X'', p_description = None, p_category = None,
                  p_is_visible = True, p_image_url = None, p_last_updated = 5,
                  p_updated_by = Some 1\<rparr>],
      product_variants =
        [\<lparr>v_id = 20, product_id = 10, sku = ''SF-0001'', variant_type = Pcs,
          variant_value = ''default'', price = 0, quantity = 0, last_updated = 5,
          updated_by = Some 1\<rparr>],
      admin_users = [1], store_status = [], sku_sequence = 1\<rparr>"

text \<open>
  The same store after the admin has added a second variant to the product, with an
  \<open>sku\<close> of the admin's choice.
\<close>

definition example_db2 :: db where
  "example_db2 =
     example_db1\<lparr>product_variants := product_variants example_db1 @
        [\<lparr>v_id = 21, product_id = 10, sku = ''SF-0002'', variant_type = Weight,
          variant_value = ''250g'', price = 120, quantity = 4, last_updated = 6,
          updated_by = Some 1\<rparr>]\<rparr>"

text \<open>A store with two status rows, the later one closed.\<close>

definition example_db3 :: db where
  "example_db3 =
     example_db1\<lparr>store_status :=
        [\<lparr>s_id = 30, is_open = True, updated_at = Some 7, s_updated_by = Some 1\<rparr>,
         \<lparr>s_id = 31, is_open = False, updated_at = Some 9, s_updated_by = Some 1\<rparr>]\<rparr>"

section \<open>Auxiliary facts\<close>


lemmas evaluation_defs =
  create_default_variant_def generate_sku_def variant_constraints_def
  policy_with_check_def policy_using_def is_admin_def
  nullify_empty_category_name_def category_fk_ok_def lpad_def bigint_text.simps
  digit_char_def prevent_last_variant_delete_def variants_of_def initial_db_def

lemma replicate_small:
  "replicate 1 x = [x]" "replicate 2 x = [x, x]" "replicate 3 x = [x, x, x]"
  by (simp_all add: numeral_2_eq_2 numeral_3_eq_3)

lemma example_db1_created:
  "exec (Some 1) 5 (CreateProduct 10 20 (example_payload ''X'')) (initial_db [1])
     = (Inr (), example_db1)"
  by (simp add: insert_product_def evaluation_defs example_payload_def example_db1_def
      replicate_small)

lemma example_db1_reachable: "reachable example_db1"
  using reachable.step [OF reachable.init,
      of "Some 1" 5 "CreateProduct 10 20 (example_payload ''X'')" "[1]"]
  by (simp only: example_db1_created snd_conv)

subsection \<open>The order of \<open>updated_at\<close>\<close>

lemma updated_at_le_refl: "updated_at_le x x"
  by (simp add: updated_at_le_def split: option.splits)

lemma updated_at_le_trans: "updated_at_le x y \<Longrightarrow> updated_at_le y z \<Longrightarrow> updated_at_le x z"
  by (auto simp: updated_at_le_def split: option.splits)

lemma updated_at_le_total: "updated_at_le x y \<or> updated_at_le y x"
  by (auto simp: updated_at_le_def split: option.splits)

lemma latest_fold:
  "foldl (\<lambda>best x. if updated_at_le (updated_at x) (updated_at best) then best else x) r rs
     \<in> set (r # rs)
   \<and> (\<forall>x\<in>set (r # rs). updated_at_le (updated_at x)
         (updated_at (foldl (\<lambda>best x. if updated_at_le (updated_at x) (updated_at best)
                                        then best else x) r rs)))"
proof (induction rs arbitrary: r)
  case Nil
  show ?case by (simp add: updated_at_le_refl)
next
  case (Cons y ys)
  show ?case
  proof (cases "updated_at_le (updated_at y) (updated_at r)")
    case True
    with Cons.IH [of r] show ?thesis
      by (auto intro: updated_at_le_trans)
  next
    case False
    then have "updated_at_le (updated_at r) (updated_at y)"
      using updated_at_le_total by blast
    with False Cons.IH [of y] show ?thesis
      by (auto intro: updated_at_le_trans)
  qed
qed

subsection \<open>The comparator as an order\<close>









section \<open>Claims about the catalog store\<close>

text \<open>
  Claim C1.  Deleting a product that has variants should succeed and remove the product with
  its variants, unhindered by the rule that a product keeps one variant.  The store does
  otherwise: the cascade deletes the variants through \<open>product_variants\<close>, whose
  before-delete trigger counts the product's remaining variants and raises at the last one.
  On the reachable store that holds one product with its default variant, the admin's
  delete of that product is aborted with the trigger's exception and removes nothing.
\<close>

theorem deleteProduct_blocked_by_variant_trigger:
  "reachable example_db1
   \<and> is_admin example_db1 (Some 1)
   \<and> length (variants_of example_db1 10) = 1
   \<and> exec (Some 1) 6 (DeleteProduct 10) example_db1 = (Inl InvariantViolation, example_db1)"
  by (simp add: example_db1_reachable)
     (simp add: delete_product_def evaluation_defs example_db1_def)

text \<open>
  Claim C4.  The generated SKU should keep every digit of a counter of more than four
  digits.  \<open>lpad\<close> truncates instead: counter value 10234 gives \<open>SF-1023\<close>, while 7 gives
  \<open>SF-0007\<close>; counter value 10000 gives the SKU that 1000 gave.
\<close>

theorem generate_sku_truncates_long_counter:
  "fst (generate_sku (d\<lparr>sku_sequence := 10233\<rparr>)) = ''SF-1023''
   \<and> fst (generate_sku (d\<lparr>sku_sequence := 6\<rparr>)) = ''SF-0007''
   \<and> fst (generate_sku (d\<lparr>sku_sequence := 9999\<rparr>)) = ''SF-1000''
   \<and> fst (generate_sku (d\<lparr>sku_sequence := 999\<rparr>)) = ''SF-1000''
   \<and> sku_sequence (snd (generate_sku d)) = sku_sequence d + 1"
  by (simp add: generate_sku_def lpad_def bigint_text.simps digit_char_def replicate_small)




text \<open>
  Claim C10.  The public page shows the store open when the status query fails and when the
  table has no row; otherwise it shows \<open>is_open\<close> of a row whose \<open>updated_at\<close> no other row
  exceeds.
\<close>

theorem fetchStoreStatus_open_by_default:
  "fetchStoreStatus (Inl err) = True
   \<and> (store_status d = [] \<longrightarrow> fetchStoreStatus (query_store_status d) = True)
   \<and> (store_status d \<noteq> [] \<longrightarrow>
        (\<exists>r\<in>set (store_status d).
           fetchStoreStatus (query_store_status d) = is_open r
           \<and> (\<forall>x\<in>set (store_status d). updated_at_le (updated_at x) (updated_at r))))"
proof (intro conjI impI)
  show "fetchStoreStatus (Inl err) = True"
    by (simp add: fetchStoreStatus_def)
  show "fetchStoreStatus (query_store_status d) = True" if "store_status d = []"
    using that by (simp add: fetchStoreStatus_def query_store_status_def latest_status_def)
  show "\<exists>r\<in>set (store_status d).
          fetchStoreStatus (query_store_status d) = is_open r
          \<and> (\<forall>x\<in>set (store_status d). updated_at_le (updated_at x) (updated_at r))"
    if "store_status d \<noteq> []"
  proof -
    from that obtain r rs where eq: "store_status d = r # rs"
      by (cases "store_status d") auto
    let ?m = "foldl (\<lambda>best x. if updated_at_le (updated_at x) (updated_at best)
                               then best else x) r rs"
    have "fetchStoreStatus (query_store_status d) = is_open ?m"
      by (simp add: fetchStoreStatus_def query_store_status_def latest_status_def eq)
    with latest_fold [of r rs] show ?thesis
      unfolding eq by blast
  qed
qed

theorem fetchStoreStatus_open_by_default_witness:
  "store_status example_db3 \<noteq> []
   \<and> fetchStoreStatus (query_store_status example_db3) = False"
proof -
  have ne: "store_status example_db3 \<noteq> []"
    by (simp add: example_db3_def)
  from fetchStoreStatus_open_by_default [of "''timeout''" example_db3] ne
  obtain r where r: "r \<in> set (store_status example_db3)"
      "fetchStoreStatus (query_store_status example_db3) = is_open r"
      "\<forall>x\<in>set (store_status example_db3). updated_at_le (updated_at x) (updated_at r)"
    by blast
  from r(1,3) have "is_open r = False"
    by (auto simp: example_db3_def updated_at_le_def)
  with r(2) ne show ?thesis
    by simp
qed

section \<open>Claims about the ordering and display resolver\<close>

text \<open>
  Claim C5.  A value naming milligrams should be divided by 1000.  Every string that contains
  \<open>mg\<close> contains \<open>g\<close>, and the test for \<open>g\<close> without \<open>kg\<close> comes first, so the
  branch for \<open>mg\<close> is never taken: \<open>500mg\<close> is read as 500 grams, not as half a gram.
\<close>

theorem parseWeightInGrams_mg_read_as_grams:
  "parseWeightInGrams ''500mg'' = Some 500
   \<and> parseWeightInGrams ''500mg'' \<noteq> Some (500 / 1000)"
  by (simp add: parseWeightInGrams_def toLowerCase_def toLowerChar_def matchNumber_def
      isDigit_def parseFloat_def digitsValue_def)

text \<open>
  Claim C7, as amended.  The parsing mode is chosen for each comparison: both values are
  parsed as weights when one of the two variants compared has type \<open>weight\<close>, and as plain
  numbers otherwise.  On a list whose variants all have type \<open>weight\<close>, or of which none
  has, this is the mode of the list, the same in every comparison.
\<close>

theorem parsedValues_mode_per_pair:
  "parsedValues pnv a b =
     (if variant_type a = Weight \<or> variant_type b = Weight
      then (parseWeightInGrams (variant_value a), parseWeightInGrams (variant_value b))
      else (pnv (variant_value a), pnv (variant_value b)))
   \<and> ((\<forall>v\<in>set vs. variant_type v = Weight) \<or> (\<forall>v\<in>set vs. variant_type v \<noteq> Weight) \<longrightarrow>
        (\<forall>x\<in>set vs. \<forall>y\<in>set vs. parsedValues pnv x y =
           (if (\<exists>v\<in>set vs. variant_type v = Weight)
            then (parseWeightInGrams (variant_value x), parseWeightInGrams (variant_value y))
            else (pnv (variant_value x), pnv (variant_value y)))))"
  by (auto simp: parsedValues_def isWeightVariant_def)

theorem parsedValues_mode_per_pair_witness:
  "list_all (\<lambda>v. variant_type v = Weight)
     [example_variant 1 Weight ''1kg'' 0, example_variant 2 Weight ''500g'' 0]
   \<and> parsedValues parseNumericValue_Index
        (example_variant 1 Weight ''1kg'' 0) (example_variant 2 Weight ''500g'' 0)
       = (Some 1000, Some 500)"
proof -
  let ?a = "example_variant 1 Weight ''1kg'' 0"
  let ?b = "example_variant 2 Weight ''500g'' 0"
  have h: "\<forall>v\<in>set [?a, ?b]. variant_type v = Weight"
    by (simp add: example_variant_def)
  from parsedValues_mode_per_pair [of parseNumericValue_Index ?a ?b "[?a, ?b]"] h
  have "parsedValues parseNumericValue_Index ?a ?b
          = (parseWeightInGrams (variant_value ?a), parseWeightInGrams (variant_value ?b))"
    by (simp add: example_variant_def)
  moreover have "parseWeightInGrams (variant_value ?a) = Some 1000"
      "parseWeightInGrams (variant_value ?b) = Some 500"
    by (simp_all add: example_variant_def parseWeightInGrams_def toLowerCase_def
        toLowerChar_def matchNumber_def isDigit_def parseFloat_def digitsValue_def)
  ultimately show ?thesis
    using h by simp
qed

theorem parsedValues_mode_differs_within_list:
  "list_ex (\<lambda>v. variant_type v = Weight)
     [example_variant 1 Weight ''1kg'' 0, example_variant 2 Pcs ''500g'' 0,
      example_variant 3 Pcs ''2kg'' 0]
   \<and> parsedValues parseNumericValue_Index
        (example_variant 3 Pcs ''2kg'' 0) (example_variant 2 Pcs ''500g'' 0)
       = (Some 2, Some 500)
   \<and> parseWeightInGrams (variant_value (example_variant 3 Pcs ''2kg'' 0)) = Some 2000
   \<and> parsedValues parseNumericValue_Index
        (example_variant 3 Pcs ''2kg'' 0) (example_variant 1 Weight ''1kg'' 0)
       = (Some 2000, Some 1000)"
  by (simp add: example_variant_def parsedValues_def isWeightVariant_def
      parseNumericValue_Index_def matchDigitsDots_def isDigitOrDot_def
      parseWeightInGrams_def toLowerCase_def toLowerChar_def matchNumber_def
      isDigit_def parseFloat_def digitsValue_def)

text \<open>
  Claim C8.  The three views should order the variants of a product alike and show the same
  active variant.  The catalog page and the detail dialog read a number with the pattern
  \<open>[\d\.]+\<close>, the admin dashboard with \<open>[^\d]*(\d+(?:\.\d+)?)\<close>: on \<open>No.5\<close> the first two
  read 0.5 and the third reads 5.  For the sizes \<open>No.5\<close> and \<open>No.10\<close> the catalog page
  and the dialog list \<open>No.10\<close> first and make it the active variant, the admin dashboard
  \<open>No.5\<close>.
\<close>

theorem resolvers_disagree_on_dotted_value:
  "parseNumericValue_Index ''No.5'' = Some (1 / 2)
   \<and> parseNumericValue_Detail ''No.5'' = Some (1 / 2)
   \<and> parseNumericValue_Admin ''No.5'' = Some 5
   \<and> map variant_value (fst (getVariantsForItem_Index None
        [example_variant 1 Size ''No.5'' 40, example_variant 2 Size ''No.10'' 80]))
       = [''No.10'', ''No.5'']
   \<and> map variant_value (fst (activeVariant_Detail None
        [example_variant 1 Size ''No.5'' 40, example_variant 2 Size ''No.10'' 80]))
       = [''No.10'', ''No.5'']
   \<and> map variant_value (fst (getVariantsForItem_Admin True None
        [example_variant 1 Size ''No.5'' 40, example_variant 2 Size ''No.10'' 80]))
       = [''No.5'', ''No.10'']
   \<and> map_option v_id (snd (getVariantsForItem_Index None
        [example_variant 1 Size ''No.5'' 40, example_variant 2 Size ''No.10'' 80])) = Some 2
   \<and> map_option v_id (snd (activeVariant_Detail None
        [example_variant 1 Size ''No.5'' 40, example_variant 2 Size ''No.10'' 80])) = Some 2
   \<and> map_option v_id (snd (getVariantsForItem_Admin True None
        [example_variant 1 Size ''No.5'' 40, example_variant 2 Size ''No.10'' 80])) = Some 1"
  by (simp add: example_variant_def getVariantsForItem_Index_def activeVariant_Detail_def
      getVariantsForItem_Admin_def selectVariant_def sortVariants_Index_def
      sortVariants_Detail_def sortVariants_Admin_def sortBy_def compareVariants_def
      parsedValues_def isWeightVariant_def parseNumericValue_Index_def
      parseNumericValue_Detail_def parseNumericValue_Admin_def matchDigitsDots_def
      matchSkipNumber_def matchNumber_def isDigit_def isDigitOrDot_def parseFloat_def
      digitsValue_def)

subsection \<open>Facts for the comparator\<close>








section \<open>The invariant of the store\<close>





















lemma example_db2_created:
  "exec (Some 1) 6
     (CreateVariant 21
        \<lparr>v_id = 0, product_id = 10, sku = ''SF-0002'', variant_type = Weight,
         variant_value = ''250g'', price = 120, quantity = 4, last_updated = 0,
         updated_by = Some 1\<rparr>)
     example_db1
   = (Inr (), example_db2)"
  by (simp add: insert_variant_def evaluation_defs example_db1_def example_db2_def)

lemma example_db2_reachable: "reachable example_db2"
  using reachable.step [OF example_db1_reachable, of "Some 1" 6
      "CreateVariant 21
        \<lparr>v_id = 0, product_id = 10, sku = ''SF-0002'', variant_type = Weight,
         variant_value = ''250g'', price = 120, quantity = 4, last_updated = 0,
         updated_by = Some 1\<rparr>"]
  by (simp only: example_db2_created snd_conv)

section \<open>Claims about variants and products\<close>



text \<open>
  Claim C3, as amended.  An admin creates a product with a fresh id and a category that is
  null, empty or known.  If the SKU that \<open>generate_sku\<close> returns is not used by any variant,
  the statement inserts the product row and one variant of it with type \<open>pcs\<close>, value
  \<open>default\<close>, price 0, quantity 0 and that SKU, and a read of the product's variants by any
  actor returns exactly this variant.  If the SKU is in use, the statement fails with
  \<open>UniquenessViolation\<close> and inserts nothing; only the sequence has advanced.
\<close>

theorem createProduct_provisions_default_variant:
  assumes admin: "is_admin d actor"
    and fresh: "pid \<notin> set (map p_id (product d))"
      "pid \<notin> set (map product_id (product_variants d))"
      "vid \<notin> set (map v_id (product_variants d))"
    and cat: "category_fk_ok (category d) (nullify_empty_category_name payload)"
  shows "(fst (generate_sku d) \<notin> set (map sku (product_variants d)) \<longrightarrow>
           exec actor now (CreateProduct pid vid payload) d
             = (Inr (),
                d\<lparr>product := product d @
                     [nullify_empty_category_name (payload\<lparr>p_id := pid, p_last_updated := now\<rparr>)],
                  product_variants := product_variants d @
                     [\<lparr>v_id = vid, product_id = pid, sku = fst (generate_sku d),
                       variant_type = Pcs, variant_value = ''default'', price = 0,
                       quantity = 0, last_updated = now,
                       updated_by = p_updated_by payload\<rparr>],
                  sku_sequence := sku_sequence d + 1\<rparr>)
           \<and> select_variants reader pid (snd (exec actor now (CreateProduct pid vid payload) d))
               = [\<lparr>v_id = vid, product_id = pid, sku = fst (generate_sku d),
                   variant_type = Pcs, variant_value = ''default'', price = 0,
                   quantity = 0, last_updated = now, updated_by = p_updated_by payload\<rparr>])
     \<and> (fst (generate_sku d) \<in> set (map sku (product_variants d)) \<longrightarrow>
           exec actor now (CreateProduct pid vid payload) d
             = (Inl UniquenessViolation, d\<lparr>sku_sequence := sku_sequence d + 1\<rparr>))
     \<and> fst (generate_sku d) = ''SF-'' @ lpad (bigint_text (sku_sequence d + 1)) 4 (CHR ''0'')"
proof -
  have old: "filter (\<lambda>v. product_id v = pid) (product_variants d) = []"
    using fresh(2) by (auto simp: filter_empty_conv)
  have cat': "category_fk_ok (category d)
      (nullify_empty_category_name (payload\<lparr>p_id := pid, p_last_updated := now\<rparr>))"
    using cat by (auto simp: category_fk_ok_def nullify_empty_category_name_def split: if_splits)
  have by': "p_updated_by
      (nullify_empty_category_name (payload\<lparr>p_id := pid, p_last_updated := now\<rparr>))
      = p_updated_by payload"
    and id': "p_id
      (nullify_empty_category_name (payload\<lparr>p_id := pid, p_last_updated := now\<rparr>)) = pid"
    by (simp_all add: nullify_empty_category_name_def)
  have nodup: "\<not> list_ex (\<lambda>w. product_id w = pid \<and> variant_type w = Pcs
        \<and> variant_value w = ''default'') (product_variants d)"
    using fresh(2) by (auto simp: list_ex_iff)
  show ?thesis
    using admin fresh cat' old nodup
    by (simp add: insert_product_def create_default_variant_def generate_sku_def Let_def
        variant_constraints_def policy_with_check_def policy_using_def select_variants_def
        by' id')
qed

theorem createProduct_provisions_default_variant_witness:
  "is_admin example_db1 (Some 1)
   \<and> fst (generate_sku example_db1) = ''SF-0002''
   \<and> fst (exec (Some 1) 7 (CreateProduct 11 22 (example_payload ''Y'')) example_db1) = Inr ()
   \<and> select_variants None 11
        (snd (exec (Some 1) 7 (CreateProduct 11 22 (example_payload ''Y'')) example_db1))
       = [\<lparr>v_id = 22, product_id = 11, sku = ''SF-0002'', variant_type = Pcs,
           variant_value = ''default'', price = 0, quantity = 0, last_updated = 7,
           updated_by = Some 1\<rparr>]"
proof -
  have a: "is_admin example_db1 (Some 1)"
    by (simp add: is_admin_def example_db1_def)
  have f: "11 \<notin> set (map p_id (product example_db1))"
      "11 \<notin> set (map product_id (product_variants example_db1))"
      "22 \<notin> set (map v_id (product_variants example_db1))"
    by (simp_all add: example_db1_def)
  have c: "category_fk_ok (category example_db1)
      (nullify_empty_category_name (example_payload ''Y''))"
    by (simp add: category_fk_ok_def nullify_empty_category_name_def example_payload_def)
  have s: "fst (generate_sku example_db1) = ''SF-0002''"
    by (simp add: generate_sku_def lpad_def bigint_text.simps digit_char_def replicate_small
        example_db1_def)
  have n: "fst (generate_sku example_db1) \<notin> set (map sku (product_variants example_db1))"
    unfolding s by (simp add: example_db1_def)
  have u: "p_updated_by (example_payload ''Y'') = Some 1"
    by (simp add: example_payload_def)
  note created = createProduct_provisions_default_variant [OF a f c, of 7 None]
  from created n
  have e: "exec (Some 1) 7 (CreateProduct 11 22 (example_payload ''Y'')) example_db1
      = (Inr (),
         example_db1\<lparr>product := product example_db1 @
              [nullify_empty_category_name
                 ((example_payload ''Y'')\<lparr>p_id := 11, p_last_updated := 7\<rparr>)],
            product_variants := product_variants example_db1 @
              [\<lparr>v_id = 22, product_id = 11, sku = fst (generate_sku example_db1),
                variant_type = Pcs, variant_value = ''default'', price = 0,
                quantity = 0, last_updated = 7,
                updated_by = p_updated_by (example_payload ''Y'')\<rparr>],
            sku_sequence := sku_sequence example_db1 + 1\<rparr>)"
    and r: "select_variants None 11
        (snd (exec (Some 1) 7 (CreateProduct 11 22 (example_payload ''Y'')) example_db1))
      = [\<lparr>v_id = 22, product_id = 11, sku = fst (generate_sku example_db1),
          variant_type = Pcs, variant_value = ''default'', price = 0,
          quantity = 0, last_updated = 7,
          updated_by = p_updated_by (example_payload ''Y'')\<rparr>]"
    by blast+
  from e have "fst (exec (Some 1) 7 (CreateProduct 11 22 (example_payload ''Y'')) example_db1)
      = Inr ()"
    by (simp only: fst_conv)
  with a s r [unfolded s u] show ?thesis
    by (intro conjI)
qed

theorem createProduct_fails_on_used_sku:
  "reachable example_db2
   \<and> is_admin example_db2 (Some 1)
   \<and> exec (Some 1) 7 (CreateProduct 11 22 (example_payload ''Y'')) example_db2
       = (Inl UniquenessViolation, example_db2\<lparr>sku_sequence := 2\<rparr>)
   \<and> select_variants None 11
        (snd (exec (Some 1) 7 (CreateProduct 11 22 (example_payload ''Y'')) example_db2)) = []"
  by (simp add: example_db2_reachable)
     (simp add: insert_product_def evaluation_defs select_variants_def replicate_small
        example_payload_def example_db1_def example_db2_def)

end
